theory Spec2Isabelle
  imports Main
begin

section \<open>Values, exceptions and the collaborating types\<close>

text \<open>
  The answers a prompt writes into a question: Python booleans and strings, the module's
  \<open>AuthTuple(user, password)\<close> and the two download targets of \<open>usertypes\<close>.
\<close>

datatype pyvalue =
    VBool bool
  | VStr string
  | AuthTuple string string
  | FileDownloadTarget string
  | OpenFileDownloadTarget "string option"

text \<open>
  The exceptions the module can raise. \<open>Error\<close> is the module's own base class and carries
  its message; it is the only class \<open>prompt_accept\<close> converts into a \<open>CommandError\<close>.
  \<open>UnsupportedOperationError\<close> derives from \<open>Exception\<close>, not from \<open>Error\<close>.
\<close>

datatype exn =
    Error string
  | UnsupportedOperationError
  | CommandError string
  | AssertionError
  | KeyError
  | AttributeError
  | ValueError
  | TypeError

text \<open>
  Modelled from the spec: the enum \<open>usertypes.PromptMode\<close> is not part of the sources.
  The spec lists six modes, YesNo, Text, Credentials, Filename, DownloadFilename and Alert;
  the constructors carry the attribute names the source uses for five of them
  (\<open>yesno\<close>, \<open>text\<close>, \<open>user_pwd\<close>, \<open>download\<close>, \<open>alert\<close>), and
  \<open>PromptMode_filename\<close> stands for the spec's Filename, which the source never names.
\<close>

datatype PromptMode =
    PromptMode_yesno
  | PromptMode_text
  | PromptMode_user_pwd
  | PromptMode_filename
  | PromptMode_download
  | PromptMode_alert

text \<open>
  Modelled from the spec: \<open>usertypes.KeyMode\<close> is not part of the sources. The source
  names the key modes \<open>prompt\<close> and \<open>yesno\<close>; every other mode is \<open>KeyMode_other\<close>.
\<close>

datatype KeyMode = KeyMode_prompt | KeyMode_yesno | KeyMode_other

text \<open>
  The slots this module connects to the signals of a question:
  \<open>self._pop_later\<close>, \<open>loop.quit\<close> and \<open>loop.deleteLater\<close> on \<open>completed\<close>, and
  the lambda calling \<open>modeman.maybe_leave(win_id, KEY_MODE, 'aborted')\<close> on \<open>aborted\<close>.
  Event loops are named by natural numbers.
\<close>

datatype slot =
    pop_later_slot
  | loop_quit_slot nat
  | loop_deleteLater_slot nat
  | maybe_leave_slot KeyMode

text \<open>
  Modelled from the spec: the class \<open>usertypes.Question\<close> is not part of the sources.
  The record holds the attributes the source reads and writes (\<open>mode\<close>, \<open>title\<close>,
  \<open>default\<close>, \<open>answer\<close>, \<open>is_aborted\<close>), the spec's one-shot completion notification
  (\<open>is_completed\<close>: it has fired), the slots connected to its \<open>completed\<close> and \<open>aborted\<close>
  signals, and whether the underlying Qt object is gone (\<open>sip.isdeleted\<close>). The source
  writes \<open>answer\<close> by plain attribute assignment.
\<close>

record Question =
  mode :: PromptMode
  title :: "string option"
  default_value :: "pyvalue option"
  answer :: "pyvalue option"
  is_aborted :: bool
  is_completed :: bool
  completed_slots :: "slot list"
  aborted_slots :: "slot list"
  isdeleted :: bool

section \<open>Prompt objects\<close>

datatype klass =
    YesNoPrompt
  | LineEditPrompt
  | AuthenticationPrompt
  | FilenamePrompt
  | DownloadFilenamePrompt
  | AlertPrompt

text \<open>Which of the two line edits of an authentication prompt has the input focus.\<close>

datatype focus = user_lineedit_focus | password_lineedit_focus | no_focus

text \<open>
  A prompt object: its class, the question it wraps (a reference into the store of
  questions), the text of its line edits and the focus. \<open>file_view_path\<close> is the path the
  file tree view yields for a navigation step (\<open>True\<close> for \<open>'next'\<close>); the view and its
  file system model are Qt collaborators.
\<close>

record Prompt =
  klass_of :: klass
  question :: nat
  lineedit :: string
  user_lineedit :: string
  password_lineedit :: string
  focus :: focus
  file_view_path :: "bool \<Rightarrow> string"

text \<open>\<open>KEY_MODE\<close>: \<open>prompt\<close> in the base class, overridden by \<open>YesNoPrompt\<close>.\<close>

fun KEY_MODE :: "klass \<Rightarrow> KeyMode" where
  "KEY_MODE YesNoPrompt = KeyMode_yesno"
| "KEY_MODE _ = KeyMode_prompt"

section \<open>The accept methods of the prompt classes\<close>

text \<open>
  Every \<open>accept(value=None)\<close> takes the prompt, its question and the optional override value
  and returns the outcome (the exception raised, or the boolean returned) together with the
  prompt and the question as the call leaves them.
\<close>

type_synonym accept_result = "(exn + bool) \<times> Prompt \<times> Question"

text \<open>The messages of the \<open>Error\<close>s raised by the accept methods (\<open>str.format\<close> applied).\<close>

definition NoDefaultError :: exn where
  "NoDefaultError = Error ''No default value was set for this question!''"

definition InvalidValueError_yesno :: "string \<Rightarrow> exn" where
  "InvalidValueError_yesno v = Error (''Invalid value '' @ v @ '' - expected yes/no!'')"

definition InvalidValueError_auth :: "string \<Rightarrow> exn" where
  "InvalidValueError_auth v =
     Error (''Value needs to be in the format username:password, but '' @ v @ '' was given'')"

definition InvalidValueError_alert :: exn where
  "InvalidValueError_alert = Error ''No value is permitted with alert prompts!''"

text \<open>\<open>value.split(':', maxsplit=1)\<close>: at most one split, at the first colon.\<close>

definition split_colon :: "string \<Rightarrow> string list" where
  "split_colon v =
     (if CHR '':'' \<in> set v
      then [takeWhile (\<lambda>c. c \<noteq> CHR '':'') v, tl (dropWhile (\<lambda>c. c \<noteq> CHR '':'') v)]
      else [v])"

definition LineEditPrompt_accept :: "Prompt \<Rightarrow> Question \<Rightarrow> string option \<Rightarrow> accept_result" where
  "LineEditPrompt_accept p q v =
     (let text = (case v of Some t \<Rightarrow> t | None \<Rightarrow> lineedit p)
      in (Inr True, p, q\<lparr>answer := Some (VStr text)\<rparr>))"

definition FilenamePrompt_accept :: "Prompt \<Rightarrow> Question \<Rightarrow> string option \<Rightarrow> accept_result" where
  "FilenamePrompt_accept p q v =
     (let text = (case v of Some t \<Rightarrow> t | None \<Rightarrow> lineedit p)
      in (Inr True, p, q\<lparr>answer := Some (VStr text)\<rparr>))"

definition DownloadFilenamePrompt_accept ::
  "Prompt \<Rightarrow> Question \<Rightarrow> string option \<Rightarrow> accept_result" where
  "DownloadFilenamePrompt_accept p q v =
     (let text = (case v of Some t \<Rightarrow> t | None \<Rightarrow> lineedit p)
      in (Inr True, p, q\<lparr>answer := Some (FileDownloadTarget text)\<rparr>))"

definition AuthenticationPrompt_accept ::
  "Prompt \<Rightarrow> Question \<Rightarrow> string option \<Rightarrow> accept_result" where
  "AuthenticationPrompt_accept p q v =
     (case v of
        Some val \<Rightarrow>
          if CHR '':'' \<notin> set val then (Inl (InvalidValueError_auth val), p, q)
          else (case split_colon val of
                  [username, password] \<Rightarrow>
                    (Inr True, p, q\<lparr>answer := Some (AuthTuple username password)\<rparr>)
                | _ \<Rightarrow> (Inl ValueError, p, q))
      | None \<Rightarrow>
          if focus p = user_lineedit_focus
          then (Inr False, p\<lparr>focus := password_lineedit_focus\<rparr>, q)
          else (Inr True, p,
                q\<lparr>answer := Some (AuthTuple (user_lineedit p) (password_lineedit p))\<rparr>))"

definition YesNoPrompt_accept :: "Prompt \<Rightarrow> Question \<Rightarrow> string option \<Rightarrow> accept_result" where
  "YesNoPrompt_accept p q v =
     (case v of
        None \<Rightarrow>
          (case default_value q of
             None \<Rightarrow> (Inl NoDefaultError, p, q)
           | Some d \<Rightarrow> (Inr True, p, q\<lparr>answer := Some d\<rparr>))
      | Some val \<Rightarrow>
          if val = ''yes'' then (Inr True, p, q\<lparr>answer := Some (VBool True)\<rparr>)
          else if val = ''no'' then (Inr True, p, q\<lparr>answer := Some (VBool False)\<rparr>)
          else (Inl (InvalidValueError_yesno val), p, q))"

definition AlertPrompt_accept :: "Prompt \<Rightarrow> Question \<Rightarrow> string option \<Rightarrow> accept_result" where
  "AlertPrompt_accept p q v =
     (case v of
        Some val \<Rightarrow> (Inl InvalidValueError_alert, p, q)
      | None \<Rightarrow> (Inr True, p, q))"

text \<open>Method dispatch on the class of the prompt.\<close>

fun accept :: "klass \<Rightarrow> Prompt \<Rightarrow> Question \<Rightarrow> string option \<Rightarrow> accept_result" where
  "accept YesNoPrompt = YesNoPrompt_accept"
| "accept LineEditPrompt = LineEditPrompt_accept"
| "accept AuthenticationPrompt = AuthenticationPrompt_accept"
| "accept FilenamePrompt = FilenamePrompt_accept"
| "accept DownloadFilenamePrompt = DownloadFilenamePrompt_accept"
| "accept AlertPrompt = AlertPrompt_accept"

section \<open>The prompt container\<close>

text \<open>
  Modelled from the spec: the mode manager \<open>modeman\<close> is not part of the sources. It is a
  collaborator: the calls the container makes to it (\<open>enter\<close>, \<open>maybe_leave\<close>, each with
  its key mode and reason) are recorded in order, and its callback \<open>on_mode_left\<close>
  arrives as an event of its own. \<open>update_geometry\<close> is the container's signal.
\<close>

datatype effect =
    modeman_enter KeyMode string
  | modeman_maybe_leave KeyMode string
  | update_geometry

text \<open>
  The state of a \<open>PromptContainer\<close>. Questions and prompts are objects shared by
  reference, so both live in a store and the container holds references: \<open>prompt\<close> is
  \<open>_prompt\<close>, \<open>queue\<close> is \<open>_queue\<close>, \<open>loops\<close> is \<open>_loops\<close>, \<open>layout\<close> the
  widgets of \<open>_layout\<close>. \<open>pop_timers\<close> counts the pending
  \<open>QTimer.singleShot(0, self._pop)\<close>; \<open>quit_loops\<close> and \<open>deleted_later\<close> are the
  event loops on which \<open>quit()\<close> and \<open>deleteLater()\<close> were called; \<open>file_view\<close> is
  what the Qt file view of a new filename prompt yields on navigation.
\<close>

record PromptContainer =
  prompt :: "nat option"
  shutting_down :: bool
  loops :: "nat list"
  queue :: "nat list"
  layout :: "nat list"
  visible :: bool
  questions :: "nat \<Rightarrow> Question"
  prompts :: "nat \<Rightarrow> Prompt"
  next_prompt :: nat
  next_loop :: nat
  pop_timers :: nat
  quit_loops :: "nat list"
  deleted_later :: "nat list"
  file_view :: "bool \<Rightarrow> string"
  effects :: "effect list"

type_synonym 'a result = "(exn + 'a) \<times> PromptContainer"

definition upd_question :: "nat \<Rightarrow> (Question \<Rightarrow> Question) \<Rightarrow> PromptContainer \<Rightarrow> PromptContainer" where
  "upd_question q f s = s\<lparr>questions := (questions s)(q := f (questions s q))\<rparr>"

definition upd_prompt :: "nat \<Rightarrow> (Prompt \<Rightarrow> Prompt) \<Rightarrow> PromptContainer \<Rightarrow> PromptContainer" where
  "upd_prompt pr f s = s\<lparr>prompts := (prompts s)(pr := f (prompts s pr))\<rparr>"

definition log_effect :: "effect \<Rightarrow> PromptContainer \<Rightarrow> PromptContainer" where
  "log_effect e s = s\<lparr>effects := effects s @ [e]\<rparr>"

text \<open>\<open>_pop_later\<close>: schedule \<open>_pop\<close> with a zero-delay single-shot timer.\<close>

definition pop_later :: "PromptContainer \<Rightarrow> PromptContainer" where
  "pop_later s = s\<lparr>pop_timers := Suc (pop_timers s)\<rparr>"

text \<open>\<open>loop.quit()\<close> and \<open>loop.deleteLater()\<close>.\<close>

definition loop_quit :: "nat \<Rightarrow> PromptContainer \<Rightarrow> PromptContainer" where
  "loop_quit l s = s\<lparr>quit_loops := quit_loops s @ [l]\<rparr>"

definition loop_deleteLater :: "nat \<Rightarrow> PromptContainer \<Rightarrow> PromptContainer" where
  "loop_deleteLater l s = s\<lparr>deleted_later := deleted_later s @ [l]\<rparr>"

text \<open>Emitting a signal runs the connected slots in the order of connection.\<close>

fun run_slot :: "slot \<Rightarrow> PromptContainer \<Rightarrow> PromptContainer" where
  "run_slot pop_later_slot s = pop_later s"
| "run_slot (loop_quit_slot l) s = loop_quit l s"
| "run_slot (loop_deleteLater_slot l) s = loop_deleteLater l s"
| "run_slot (maybe_leave_slot km) s = log_effect (modeman_maybe_leave km ''aborted'') s"

definition emit :: "slot list \<Rightarrow> PromptContainer \<Rightarrow> PromptContainer" where
  "emit slots s = fold run_slot slots s"

text \<open>
  Modelled from the spec: the methods of \<open>usertypes.Question\<close>, which is not part of the
  sources. \<open>done()\<close> fires the completion notification; \<open>cancel()\<close> marks the question
  aborted and fires completion; \<open>abort()\<close> does the same and also signals the distinct
  \<open>aborted\<close> notification. The completion notification fires at most once, so each is a
  no-op on a question that has completed.
\<close>

definition Question_done :: "nat \<Rightarrow> PromptContainer \<Rightarrow> PromptContainer" where
  "Question_done q s =
     (if is_completed (questions s q) then s
      else emit (completed_slots (questions s q))
             (upd_question q (\<lambda>x. x\<lparr>is_completed := True\<rparr>) s))"

definition Question_cancel :: "nat \<Rightarrow> PromptContainer \<Rightarrow> PromptContainer" where
  "Question_cancel q s =
     (if is_completed (questions s q) then s
      else emit (completed_slots (questions s q))
             (upd_question q (\<lambda>x. x\<lparr>is_aborted := True, is_completed := True\<rparr>) s))"

definition Question_abort :: "nat \<Rightarrow> PromptContainer \<Rightarrow> PromptContainer" where
  "Question_abort q s =
     (if is_completed (questions s q) then s
      else emit (completed_slots (questions s q))
             (emit (aborted_slots (questions s q))
                (upd_question q (\<lambda>x. x\<lparr>is_aborted := True, is_completed := True\<rparr>) s)))"

subsection \<open>Constructing prompts\<close>

text \<open>Python truthiness of a default value.\<close>

fun truthy :: "pyvalue \<Rightarrow> bool" where
  "truthy (VBool b) = b"
| "truthy (VStr t) = (t \<noteq> [])"
| "truthy _ = True"

text \<open>
  \<open>if question.default: self._lineedit.setText(question.default)\<close>: the initial text of
  the line edit; \<open>setText\<close> takes a string only.
\<close>

definition initial_text :: "Question \<Rightarrow> exn + string" where
  "initial_text q =
     (case default_value q of
        None \<Rightarrow> Inr []
      | Some d \<Rightarrow>
          if truthy d then (case d of VStr t \<Rightarrow> Inr t | _ \<Rightarrow> Inl TypeError) else Inr [])"

text \<open>\<open>_BasePrompt.__init__\<close>: a prompt without text and without focus.\<close>

definition BasePrompt :: "klass \<Rightarrow> nat \<Rightarrow> (bool \<Rightarrow> string) \<Rightarrow> Prompt" where
  "BasePrompt k q fv =
     \<lparr>klass_of = k, question = q, lineedit = [], user_lineedit = [], password_lineedit = [],
      focus = no_focus, file_view_path = fv\<rparr>"

text \<open>
  The constructors \<open>klass(question, win_id)\<close>. \<open>_init_title\<close> asserts that the question
  has a title; the filename prompts call \<open>_set_fileview_root(question.default)\<close>, whose
  \<open>path.endswith\<close> needs a string; the authentication prompt asserts that the question
  has no (truthy) default. Every constructor ends with \<open>_init_key_label\<close>, which calls
  \<open>_allowed_commands\<close>; that of the yes/no prompt asserts, when the question has a
  default, \<open>question.default in [True, False]\<close>, and the others return constant lists.
  Laying out labels and key hints has no other effect here.
\<close>

fun construct :: "klass \<Rightarrow> nat \<Rightarrow> Question \<Rightarrow> (bool \<Rightarrow> string) \<Rightarrow> exn + Prompt" where
  "construct LineEditPrompt qr q fv =
     (if title q = None then Inl AssertionError
      else case initial_text q of
             Inl e \<Rightarrow> Inl e
           | Inr t \<Rightarrow> Inr ((BasePrompt LineEditPrompt qr fv)\<lparr>lineedit := t\<rparr>))"
| "construct AuthenticationPrompt qr q fv =
     (if title q = None then Inl AssertionError
      else if (case default_value q of None \<Rightarrow> False | Some d \<Rightarrow> truthy d)
      then Inl AssertionError
      else Inr (BasePrompt AuthenticationPrompt qr fv))"
| "construct YesNoPrompt qr q fv =
     (if title q = None then Inl AssertionError
      else case default_value q of
             None \<Rightarrow> Inr (BasePrompt YesNoPrompt qr fv)
           | Some (VBool b) \<Rightarrow> Inr (BasePrompt YesNoPrompt qr fv)
           | Some d \<Rightarrow> Inl AssertionError)"
| "construct AlertPrompt qr q fv =
     (if title q = None then Inl AssertionError else Inr (BasePrompt AlertPrompt qr fv))"
| "construct k qr q fv =
     (if title q = None then Inl AssertionError
      else case default_value q of
             Some (VStr d) \<Rightarrow>
               (case initial_text q of
                  Inl e \<Rightarrow> Inl e
                | Inr t \<Rightarrow> Inr ((BasePrompt k qr fv)\<lparr>lineedit := t\<rparr>))
           | _ \<Rightarrow> Inl AttributeError)"

text \<open>
  The table \<open>classes\<close> of \<open>ask_question\<close>, a dictionary with five keys;
  \<open>classes[question.mode]\<close> raises \<open>KeyError\<close> on any other mode.
\<close>

fun classes :: "PromptMode \<Rightarrow> klass option" where
  "classes PromptMode_yesno = Some YesNoPrompt"
| "classes PromptMode_text = Some LineEditPrompt"
| "classes PromptMode_user_pwd = Some AuthenticationPrompt"
| "classes PromptMode_download = Some DownloadFilenamePrompt"
| "classes PromptMode_alert = Some AlertPrompt"
| "classes PromptMode_filename = None"

subsection \<open>Showing a prompt\<close>

text \<open>
  \<open>_show_prompt(prompt)\<close>. The layout must hold at most one widget; \<open>takeAt(0)\<close> removes
  and returns it. With nothing in the layout \<open>_prompt\<close> must be \<open>None\<close>; otherwise the
  widget taken must be \<open>_prompt\<close> itself, and it is hidden (not deleted). Then \<open>_prompt\<close>
  is set. For \<open>None\<close> the container hides and the result is \<open>False\<close>. For a prompt, the
  \<open>aborted\<close> signal of its question is connected to leaving the key mode, the key mode
  is entered, the prompt is added to the layout, shown and focused (the focus goes to its
  focus proxy, the username field of an authentication prompt), and the result is \<open>True\<close>.
\<close>

definition install_prompt :: "PromptContainer \<Rightarrow> nat option \<Rightarrow> bool result" where
  "install_prompt s p =
     (let s1 = s\<lparr>prompt := p\<rparr> in
      case p of
        None \<Rightarrow> (Inr False, s1\<lparr>visible := False\<rparr>)
      | Some pr \<Rightarrow>
          (let km = KEY_MODE (klass_of (prompts s1 pr));
               s2 = upd_question (question (prompts s1 pr))
                      (\<lambda>x. x\<lparr>aborted_slots := aborted_slots x @ [maybe_leave_slot km]\<rparr>) s1;
               s3 = log_effect (modeman_enter km ''question asked'') s2;
               s4 = s3\<lparr>prompt := Some pr, layout := layout s3 @ [pr], visible := True\<rparr>;
               s5 = upd_prompt pr
                      (\<lambda>x. x\<lparr>focus := (if klass_of x = AuthenticationPrompt
                                         then user_lineedit_focus else no_focus)\<rparr>) s4
           in (Inr True, log_effect update_geometry s5)))"

definition show_prompt :: "PromptContainer \<Rightarrow> nat option \<Rightarrow> bool result" where
  "show_prompt s p =
     (if length (layout s) \<noteq> 0 \<and> length (layout s) \<noteq> 1 then (Inl AssertionError, s)
      else case layout s of
             [] \<Rightarrow> if prompt s \<noteq> None then (Inl AssertionError, s) else install_prompt s p
           | item # rest \<Rightarrow>
               (let s1 = s\<lparr>layout := rest\<rparr> in
                if prompt s1 \<noteq> Some item then (Inl AssertionError, s1)
                else install_prompt s1 p))"

subsection \<open>Shutdown\<close>

text \<open>
  \<open>shutdown()\<close>: set \<open>_shutting_down\<close>; if there are event loops, quit each and schedule
  its deletion, and return \<open>True\<close>; otherwise return \<open>False\<close>.
\<close>

definition shutdown :: "PromptContainer \<Rightarrow> bool \<times> PromptContainer" where
  "shutdown s =
     (let s1 = s\<lparr>shutting_down := True\<rparr> in
      if loops s1 \<noteq> []
      then (True, fold (\<lambda>loop x. loop_deleteLater loop (loop_quit loop x)) (loops s1) s1)
      else (False, s1))"

subsection \<open>Methods of the current prompt, called through the container\<close>

text \<open>
  \<open>self._prompt.accept(value)\<close>: the accept method of the prompt's class, run on the
  prompt and its question in the stores.
\<close>

definition call_accept :: "PromptContainer \<Rightarrow> nat \<Rightarrow> string option \<Rightarrow> bool result" where
  "call_accept s pr v =
     (let p = prompts s pr
      in case accept (klass_of p) p (questions s (question p)) v of
           (r, p', q') \<Rightarrow>
             (r, s\<lparr>prompts := (prompts s)(pr := p'),
                   questions := (questions s)(question p := q')\<rparr>))"

text \<open>
  \<open>download_open(cmdline)\<close>: only \<open>DownloadFilenamePrompt\<close> overrides the base method,
  which raises \<open>UnsupportedOperationError\<close>. It answers with an
  \<open>OpenFileDownloadTarget\<close>, leaves the prompt key mode and completes the question.
\<close>

definition download_open :: "PromptContainer \<Rightarrow> nat \<Rightarrow> string option \<Rightarrow> unit result" where
  "download_open s pr cmdline =
     (let p = prompts s pr in
      if klass_of p = DownloadFilenamePrompt
      then (let s1 = upd_question (question p)
                       (\<lambda>x. x\<lparr>answer := Some (OpenFileDownloadTarget cmdline)\<rparr>) s;
                s2 = log_effect (modeman_maybe_leave KeyMode_prompt ''download open'') s1
            in (Inr (), Question_done (question p) s2))
      else (Inl UnsupportedOperationError, s))"

text \<open>
  \<open>item_focus(which)\<close>: the filename prompts move the selection of the file view and
  put its path into the line edit; the authentication prompt switches between its two
  fields; the base method raises \<open>UnsupportedOperationError\<close>.
\<close>

definition item_focus :: "PromptContainer \<Rightarrow> nat \<Rightarrow> string \<Rightarrow> unit result" where
  "item_focus s pr which =
     (let p = prompts s pr in
      if klass_of p = FilenamePrompt \<or> klass_of p = DownloadFilenamePrompt
      then (if which \<noteq> ''prev'' \<and> which \<noteq> ''next'' then (Inl AssertionError, s)
            else (Inr (),
                  upd_prompt pr (\<lambda>x. x\<lparr>lineedit := file_view_path x (which = ''next'')\<rparr>) s))
      else if klass_of p = AuthenticationPrompt
      then (if which \<noteq> ''prev'' \<and> which \<noteq> ''next'' then (Inl AssertionError, s)
            else if which = ''next'' \<and> focus p = user_lineedit_focus
            then (Inr (), upd_prompt pr (\<lambda>x. x\<lparr>focus := password_lineedit_focus\<rparr>) s)
            else if which = ''prev'' \<and> focus p = password_lineedit_focus
            then (Inr (), upd_prompt pr (\<lambda>x. x\<lparr>focus := user_lineedit_focus\<rparr>) s)
            else (Inr (), s))
      else (Inl UnsupportedOperationError, s))"

subsection \<open>The command entry points\<close>

text \<open>
  \<open>prompt_accept(value=None)\<close>: an \<open>Error\<close> of the accept method is raised again as a
  \<open>CommandError\<close> with the same message; if the method returns \<open>True\<close>, the question is
  completed with \<open>done()\<close> and the key mode of the prompt is left. With no current prompt
  the attribute access on \<open>None\<close> fails.
\<close>

definition prompt_accept :: "PromptContainer \<Rightarrow> string option \<Rightarrow> unit result" where
  "prompt_accept s v =
     (case prompt s of
        None \<Rightarrow> (Inl AttributeError, s)
      | Some pr \<Rightarrow>
          (case call_accept s pr v of
             (Inl (Error msg), s1) \<Rightarrow> (Inl (CommandError msg), s1)
           | (Inl e, s1) \<Rightarrow> (Inl e, s1)
           | (Inr done, s1) \<Rightarrow>
               if done
               then (let key_mode = KEY_MODE (klass_of (prompts s1 pr));
                         s2 = Question_done (question (prompts s1 pr)) s1
                     in (Inr (), log_effect (modeman_maybe_leave key_mode '':prompt-accept'') s2))
               else (Inr (), s1)))"

definition prompt_yes :: "PromptContainer \<Rightarrow> unit result" where
  "prompt_yes s = prompt_accept s (Some ''yes'')"

definition prompt_no :: "PromptContainer \<Rightarrow> unit result" where
  "prompt_no s = prompt_accept s (Some ''no'')"

text \<open>
  \<open>on_mode_left(mode)\<close>: if there is a current prompt and the mode left is its key mode,
  show nothing, and cancel the question if it has no answer and is not aborted.
\<close>

definition on_mode_left :: "PromptContainer \<Rightarrow> KeyMode \<Rightarrow> unit result" where
  "on_mode_left s m =
     (case prompt s of
        None \<Rightarrow> (Inr (), s)
      | Some pr \<Rightarrow>
          if m = KEY_MODE (klass_of (prompts s pr))
          then (let q = question (prompts s pr) in
                case show_prompt s None of
                  (Inl e, s1) \<Rightarrow> (Inl e, s1)
                | (Inr shown, s1) \<Rightarrow>
                    if answer (questions s1 q) = None \<and> \<not> is_aborted (questions s1 q)
                    then (Inr (), Question_cancel q s1)
                    else (Inr (), s1))
          else (Inr (), s))"

text \<open>
  \<open>prompt_open_download\<close> and \<open>prompt_item_focus\<close> call the method of the current
  prompt and pass over an \<open>UnsupportedOperationError\<close>.
\<close>

definition prompt_open_download :: "PromptContainer \<Rightarrow> string option \<Rightarrow> unit result" where
  "prompt_open_download s cmdline =
     (case prompt s of
        None \<Rightarrow> (Inl AttributeError, s)
      | Some pr \<Rightarrow>
          (case download_open s pr cmdline of
             (Inl UnsupportedOperationError, s1) \<Rightarrow> (Inr (), s1)
           | r \<Rightarrow> r))"

definition prompt_item_focus :: "PromptContainer \<Rightarrow> string \<Rightarrow> unit result" where
  "prompt_item_focus s which =
     (case prompt s of
        None \<Rightarrow> (Inl AttributeError, s)
      | Some pr \<Rightarrow>
          (case item_focus s pr which of
             (Inl UnsupportedOperationError, s1) \<Rightarrow> (Inr (), s1)
           | r \<Rightarrow> r))"

section \<open>Asking questions\<close>

text \<open>
  What happens while a local event loop spins is a script of events: calls of the
  container's entry points from the outside (producers, the command layer, the mode
  manager, timers). An \<open>ask_question\<close> event carries the script of the events delivered
  while its own local loop runs (used only when it blocks). \<open>pop_timer_event\<close> is a
  pending single-shot timer firing \<open>_pop\<close>; \<open>loop_destroyed_event\<close> is the
  \<open>destroyed\<close> signal of an event loop, connected to \<open>self._loops.remove(loop)\<close>.
\<close>

datatype event =
    ask_question_event nat bool "event list"
  | prompt_accept_event "string option"
  | on_mode_left_event KeyMode
  | prompt_open_download_event "string option"
  | prompt_item_focus_event string
  | shutdown_event
  | pop_timer_event
  | loop_destroyed_event nat

text \<open>\<open>self._loops.remove(loop)\<close>, a \<open>ValueError\<close> if the loop is not in the list.\<close>

definition loops_remove :: "PromptContainer \<Rightarrow> nat \<Rightarrow> unit result" where
  "loops_remove s loop =
     (if loop \<in> set (loops s) then (Inr (), s\<lparr>loops := remove1 loop (loops s)\<rparr>)
      else (Inl ValueError, s))"

text \<open>
  \<open>ask_question(question, blocking)\<close>, \<open>_pop\<close>, the local event loop \<open>loop.exec_()\<close> (here \<open>exec_loop\<close>) and
  the dispatch of one event. A call that never returns has the value \<open>None\<close>:
  \<open>exec_loop\<close> returns once \<open>quit()\<close> has been called on its loop, and hangs when its script
  ends before that. An event handler's exception does not leave the event loop: the loop
  goes on from the state the handler left.
\<close>

function ask_question :: "event list \<Rightarrow> PromptContainer \<Rightarrow> nat \<Rightarrow> bool \<Rightarrow> (pyvalue option result) option"
  and pop :: "PromptContainer \<Rightarrow> (unit result) option"
  and exec_loop :: "nat \<Rightarrow> event list \<Rightarrow> PromptContainer \<Rightarrow> PromptContainer option"
  and handle :: "event \<Rightarrow> PromptContainer \<Rightarrow> PromptContainer option"
where
  "ask_question script s q blocking =
     (if shutting_down s then Some (Inr None, Question_abort q s)
      else if prompt s \<noteq> None \<and> \<not> blocking
      then Some (Inr None, s\<lparr>queue := queue s @ [q]\<rparr>)
      else
        (let old_prompt = prompt s in
         case classes (mode (questions s q)) of
           None \<Rightarrow> Some (Inl KeyError, s)
         | Some klass \<Rightarrow>
             (case construct klass q (questions s q) (file_view s) of
                Inl e \<Rightarrow> Some (Inl e, s)
              | Inr p \<Rightarrow>
                  (let pr = next_prompt s;
                       s1 = s\<lparr>prompts := (prompts s)(pr := p), next_prompt := Suc pr\<rparr>
                   in case show_prompt s1 (Some pr) of
                        (Inl e, s2) \<Rightarrow> Some (Inl e, s2)
                      | (Inr shown, s2) \<Rightarrow>
                          if blocking
                          then (let loop = next_loop s2;
                                    s3 = s2\<lparr>next_loop := Suc loop, loops := loops s2 @ [loop]\<rparr>;
                                    s4 = upd_question q
                                           (\<lambda>x. x\<lparr>completed_slots := completed_slots x @
                                                  [loop_quit_slot loop, loop_deleteLater_slot loop]\<rparr>) s3
                                in case exec_loop loop script s4 of
                                     None \<Rightarrow> None
                                   | Some s5 \<Rightarrow>
                                       (case show_prompt s5 old_prompt of
                                          (Inl e, s6) \<Rightarrow> Some (Inl e, s6)
                                        | (Inr restored, s6) \<Rightarrow>
                                            (let s7 = (if \<not> restored
                                                       then (if queue s6 \<noteq> [] then pop_later s6 else s6)
                                                       else s6)
                                             in Some (Inr (answer (questions s7 q)), s7))))
                          else Some (Inr None,
                                     upd_question q
                                       (\<lambda>x. x\<lparr>completed_slots := completed_slots x @ [pop_later_slot]\<rparr>)
                                       s2)))))"
| "pop s =
     (case queue s of
        [] \<Rightarrow> Some (Inr (), s)
      | q # rest \<Rightarrow>
          (let s1 = s\<lparr>queue := rest\<rparr> in
           if \<not> isdeleted (questions s1 q)
           then (case ask_question [] s1 q False of
                   None \<Rightarrow> None
                 | Some (Inl e, s2) \<Rightarrow> Some (Inl e, s2)
                 | Some (Inr r, s2) \<Rightarrow> Some (Inr (), s2))
           else Some (Inr (), s1)))"
| "exec_loop loop [] s = (if loop \<in> set (quit_loops s) then Some s else None)"
| "exec_loop loop (e # es) s =
     (if loop \<in> set (quit_loops s) then Some s
      else case handle e s of
             None \<Rightarrow> None
           | Some s1 \<Rightarrow> exec_loop loop es s1)"
| "handle (ask_question_event q blocking script) s =
     (case ask_question script s q blocking of
        None \<Rightarrow> None
      | Some (r, s1) \<Rightarrow> Some s1)"
| "handle (prompt_accept_event v) s = Some (snd (prompt_accept s v))"
| "handle (on_mode_left_event m) s = Some (snd (on_mode_left s m))"
| "handle (prompt_open_download_event cmdline) s = Some (snd (prompt_open_download s cmdline))"
| "handle (prompt_item_focus_event which) s = Some (snd (prompt_item_focus s which))"
| "handle shutdown_event s = Some (snd (shutdown s))"
| "handle pop_timer_event s =
     (if pop_timers s = 0 then Some s
      else case pop (s\<lparr>pop_timers := pop_timers s - 1\<rparr>) of
             None \<Rightarrow> None
           | Some (r, s1) \<Rightarrow> Some s1)"
| "handle (loop_destroyed_event loop) s = Some (snd (loops_remove s loop))"
  by pat_completeness auto
termination
  by (relation "measure (\<lambda>x. case x of
          Inl (Inl (script, s, q, blocking)) \<Rightarrow> 4 * size_list size script + 1
        | Inl (Inr s) \<Rightarrow> 2
        | Inr (Inl (loop, es, s)) \<Rightarrow> 4 * size_list size es
        | Inr (Inr (e, s)) \<Rightarrow> 4 * size e + 3)") auto

text \<open>Sample objects: a pending credentials question and its freshly shown prompt.\<close>

definition sample_question :: "PromptMode \<Rightarrow> Question" where
  "sample_question m =
     \<lparr>mode = m, title = Some ''Title'', default_value = None, answer = None,
      is_aborted = False, is_completed = False, completed_slots = [], aborted_slots = [],
      isdeleted = False\<rparr>"

definition sample_auth_prompt :: Prompt where
  "sample_auth_prompt =
     \<lparr>klass_of = AuthenticationPrompt, question = 0, lineedit = [],
      user_lineedit = ''bob'', password_lineedit = ''hunter2'',
      focus = user_lineedit_focus, file_view_path = (\<lambda>_. [])\<rparr>"

text \<open>
  \<open>PromptContainer.__init__\<close>: no prompt, not shutting down, no loops, an empty queue and
  an empty layout, over a given store of questions.
\<close>

definition PromptContainer_init :: "(nat \<Rightarrow> Question) \<Rightarrow> (bool \<Rightarrow> string) \<Rightarrow> PromptContainer" where
  "PromptContainer_init qs fv =
     \<lparr>prompt = None, shutting_down = False, loops = [], queue = [], layout = [],
      visible = False, questions = qs, prompts = (\<lambda>_. BasePrompt AlertPrompt 0 fv),
      next_prompt = 0, next_loop = 0, pop_timers = 0, quit_loops = [], deleted_later = [],
      file_view = fv, effects = []\<rparr>"

text \<open>A container showing one prompt of class \<open>k\<close> for the pending question \<open>0\<close> of mode \<open>m\<close>.\<close>

definition shown_state :: "klass \<Rightarrow> PromptMode \<Rightarrow> PromptContainer" where
  "shown_state k m =
     (PromptContainer_init (\<lambda>_. sample_question m) (\<lambda>_. []))
       \<lparr>prompt := Some 0, layout := [0], visible := True,
        prompts := (\<lambda>_. BasePrompt k 0 (\<lambda>_. [])), next_prompt := 1\<rparr>"

section \<open>Serving the queue\<close>


text \<open>
  What the container never changes: the file view, and of every question its mode, title
  and default and whether it was deleted.
\<close>

definition static_part ::
  "PromptContainer \<Rightarrow> (bool \<Rightarrow> string) \<times> (nat \<Rightarrow> PromptMode \<times> string option \<times> pyvalue option \<times> bool)" where
  "static_part s =
     (file_view s,
      \<lambda>q. (mode (questions s q), title (questions s q), default_value (questions s q),
           isdeleted (questions s q)))"




text \<open>
  The layout invariant of the container: the layout holds exactly the current prompt, and
  nothing when there is none. \<open>_show_prompt\<close> asserts it before it installs a prompt.
\<close>

definition consistent :: "PromptContainer \<Rightarrow> bool" where
  "consistent s = (layout s = (case prompt s of None \<Rightarrow> [] | Some pr \<Rightarrow> [pr]))"

section \<open>Properties of the accept methods\<close>

lemma split_colon_first:
  "CHR '':'' \<notin> set u \<Longrightarrow> split_colon (u @ CHR '':'' # rest) = [u, rest]"
  by (induction u) (auto simp: split_colon_def)

text \<open>
  C6. Credentials accept. An override value without a colon raises the module's \<open>Error\<close>
  with the format message (the spec's InvalidValueError); an override value with a colon
  resolves in one call, the answer being the pair left and right of the first colon, and
  returns \<open>True\<close>; without an override, while the username field has the focus, the call
  returns \<open>False\<close>, moves the focus to the password field and leaves the question
  untouched; without an override otherwise it answers with both field contents and
  returns \<open>True\<close>.
\<close>

theorem AuthenticationPrompt_accept_contract:
  "(CHR '':'' \<notin> set val \<longrightarrow>
      AuthenticationPrompt_accept p q (Some val) = (Inl (InvalidValueError_auth val), p, q)) \<and>
   (CHR '':'' \<in> set val \<longrightarrow>
      (\<exists>u pw. val = u @ CHR '':'' # pw \<and> CHR '':'' \<notin> set u \<and>
         AuthenticationPrompt_accept p q (Some val) =
           (Inr True, p, q\<lparr>answer := Some (AuthTuple u pw)\<rparr>))) \<and>
   (focus p = user_lineedit_focus \<longrightarrow>
      AuthenticationPrompt_accept p q None =
        (Inr False, p\<lparr>focus := password_lineedit_focus\<rparr>, q)) \<and>
   (focus p \<noteq> user_lineedit_focus \<longrightarrow>
      AuthenticationPrompt_accept p q None =
        (Inr True, p, q\<lparr>answer := Some (AuthTuple (user_lineedit p) (password_lineedit p))\<rparr>))"
proof -
  have colon: "\<exists>u pw. val = u @ CHR '':'' # pw \<and> CHR '':'' \<notin> set u \<and>
         AuthenticationPrompt_accept p q (Some val) =
           (Inr True, p, q\<lparr>answer := Some (AuthTuple u pw)\<rparr>)"
    if "CHR '':'' \<in> set val"
  proof -
    from that obtain u pw where v: "val = u @ CHR '':'' # pw" and u: "CHR '':'' \<notin> set u"
      by (meson split_list_first)
    have "AuthenticationPrompt_accept p q (Some val) =
            (Inr True, p, q\<lparr>answer := Some (AuthTuple u pw)\<rparr>)"
      using u by (simp add: AuthenticationPrompt_accept_def v split_colon_first)
    with v u show ?thesis by blast
  qed
  show ?thesis
    using colon by (simp add: AuthenticationPrompt_accept_def)
qed

theorem AuthenticationPrompt_accept_contract_witness:
  "AuthenticationPrompt_accept sample_auth_prompt (sample_question PromptMode_user_pwd)
       (Some ''alice'') =
     (Inl (InvalidValueError_auth ''alice''), sample_auth_prompt,
      sample_question PromptMode_user_pwd) \<and>
   (\<exists>u pw. ''alice:secret'' = u @ CHR '':'' # pw \<and> CHR '':'' \<notin> set u \<and>
      AuthenticationPrompt_accept sample_auth_prompt (sample_question PromptMode_user_pwd)
          (Some ''alice:secret'') =
        (Inr True, sample_auth_prompt,
         (sample_question PromptMode_user_pwd)\<lparr>answer := Some (AuthTuple u pw)\<rparr>)) \<and>
   AuthenticationPrompt_accept sample_auth_prompt (sample_question PromptMode_user_pwd) None =
     (Inr False, sample_auth_prompt\<lparr>focus := password_lineedit_focus\<rparr>,
      sample_question PromptMode_user_pwd) \<and>
   AuthenticationPrompt_accept (sample_auth_prompt\<lparr>focus := password_lineedit_focus\<rparr>)
       (sample_question PromptMode_user_pwd) None =
     (Inr True, sample_auth_prompt\<lparr>focus := password_lineedit_focus\<rparr>,
      (sample_question PromptMode_user_pwd)\<lparr>answer := Some (AuthTuple ''bob'' ''hunter2'')\<rparr>)"
  using AuthenticationPrompt_accept_contract
          [of "''alice''" sample_auth_prompt "sample_question PromptMode_user_pwd"]
        AuthenticationPrompt_accept_contract
          [of "''alice:secret''" sample_auth_prompt "sample_question PromptMode_user_pwd"]
        AuthenticationPrompt_accept_contract
          [of "''x''" "sample_auth_prompt\<lparr>focus := password_lineedit_focus\<rparr>"
              "sample_question PromptMode_user_pwd"]
  by (simp add: sample_auth_prompt_def)

text \<open>
  C10. Credentials accept with an override value holding several colons does not fail:
  the value is split at the first colon only. For every colon-free \<open>u\<close> and every \<open>rest\<close>,
  accepting \<open>u:rest\<close> returns \<open>True\<close> with the answer \<open>(u, rest)\<close>, whatever \<open>rest\<close>
  contains.
\<close>

theorem AuthenticationPrompt_accept_first_colon:
  "CHR '':'' \<notin> set u \<Longrightarrow>
   AuthenticationPrompt_accept p q (Some (u @ '':'' @ rest)) =
     (Inr True, p, q\<lparr>answer := Some (AuthTuple u rest)\<rparr>)"
  by (simp add: AuthenticationPrompt_accept_def split_colon_first)

theorem AuthenticationPrompt_accept_first_colon_witness:
  "CHR '':'' \<notin> set ''a'' \<and>
   AuthenticationPrompt_accept sample_auth_prompt (sample_question PromptMode_user_pwd)
       (Some ''a:b:c'') =
     (Inr True, sample_auth_prompt,
      (sample_question PromptMode_user_pwd)\<lparr>answer := Some (AuthTuple ''a'' ''b:c'')\<rparr>)"
  using AuthenticationPrompt_accept_first_colon
          [of "''a''" sample_auth_prompt "sample_question PromptMode_user_pwd" "''b:c''"]
  by simp

text \<open>
  C7. YesNo accept. Without a value on a question whose default is unset it raises the
  \<open>Error\<close> "No default value was set" (the spec's NoDefaultError); without a value and
  with a default it answers with the default; \<open>"yes"\<close> answers \<open>True\<close> and \<open>"no"\<close>
  answers \<open>False\<close>; every other literal raises the \<open>Error\<close> "Invalid value"
  (the spec's InvalidValueError); and no call returns \<open>False\<close>: whenever it returns, it
  returns \<open>True\<close>.
\<close>

theorem YesNoPrompt_accept_contract:
  "(default_value q = None \<longrightarrow> YesNoPrompt_accept p q None = (Inl NoDefaultError, p, q)) \<and>
   (default_value q = Some d \<longrightarrow>
      YesNoPrompt_accept p q None = (Inr True, p, q\<lparr>answer := Some d\<rparr>)) \<and>
   YesNoPrompt_accept p q (Some ''yes'') = (Inr True, p, q\<lparr>answer := Some (VBool True)\<rparr>) \<and>
   YesNoPrompt_accept p q (Some ''no'') = (Inr True, p, q\<lparr>answer := Some (VBool False)\<rparr>) \<and>
   (val \<noteq> ''yes'' \<and> val \<noteq> ''no'' \<longrightarrow>
      YesNoPrompt_accept p q (Some val) = (Inl (InvalidValueError_yesno val), p, q)) \<and>
   (\<forall>r. fst (YesNoPrompt_accept p q v) = Inr r \<longrightarrow> r = True)"
  by (auto simp: YesNoPrompt_accept_def split: option.splits)

theorem YesNoPrompt_accept_contract_witness:
  "YesNoPrompt_accept sample_auth_prompt (sample_question PromptMode_yesno) None =
     (Inl NoDefaultError, sample_auth_prompt, sample_question PromptMode_yesno) \<and>
   YesNoPrompt_accept sample_auth_prompt
       ((sample_question PromptMode_yesno)\<lparr>default_value := Some (VBool True)\<rparr>) None =
     (Inr True, sample_auth_prompt,
      (sample_question PromptMode_yesno)
        \<lparr>default_value := Some (VBool True), answer := Some (VBool True)\<rparr>) \<and>
   YesNoPrompt_accept sample_auth_prompt (sample_question PromptMode_yesno) (Some ''maybe'') =
     (Inl (InvalidValueError_yesno ''maybe''), sample_auth_prompt,
      sample_question PromptMode_yesno) \<and>
   fst (YesNoPrompt_accept sample_auth_prompt (sample_question PromptMode_yesno)
          (Some ''yes'')) = Inr True"
  using YesNoPrompt_accept_contract
          [of "sample_question PromptMode_yesno" sample_auth_prompt "VBool True" "''maybe''"
              "Some ''yes''"]
        YesNoPrompt_accept_contract
          [of "(sample_question PromptMode_yesno)\<lparr>default_value := Some (VBool True)\<rparr>"
              sample_auth_prompt "VBool True" "''maybe''" None]
  by (simp add: sample_question_def)

section \<open>The table of prompt classes\<close>

lemma show_prompt_not_KeyError: "show_prompt s p \<noteq> (Inl KeyError, s')"
  by (auto simp: show_prompt_def install_prompt_def Let_def split: list.splits option.splits)

lemma construct_not_KeyError: "construct k qr q fv \<noteq> Inl KeyError"
  by (cases k) (auto simp: initial_text_def split: option.splits pyvalue.splits sum.splits)

text \<open>
  C5, as stated, fails: the table \<open>classes\<close> has no entry for the mode Filename of the
  spec's enum, and asking a question of that mode raises \<open>KeyError\<close> at the lookup.
\<close>

theorem classes_filename_counterexample:
  "classes PromptMode_filename = None \<and>
   ask_question [] (PromptContainer_init (\<lambda>_. sample_question PromptMode_filename) (\<lambda>_. []))
       0 False =
     Some (Inl KeyError,
           PromptContainer_init (\<lambda>_. sample_question PromptMode_filename) (\<lambda>_. []))"
  by (simp add: PromptContainer_init_def sample_question_def)

text \<open>
  C5, amended. For each of the five modes the table names (yesno, text, user_pwd, download,
  alert) it yields a prompt class, and asking a question of such a mode never raises
  \<open>KeyError\<close>: \<open>ask_question\<close> does not fail on the mode dispatch.
\<close>

theorem classes_five_modes:
  "m \<in> {PromptMode_yesno, PromptMode_text, PromptMode_user_pwd, PromptMode_download,
         PromptMode_alert}
   \<Longrightarrow> (\<exists>k. classes m = Some k) \<and>
       (mode (questions s q) = m \<longrightarrow>
          (\<forall>s'. ask_question script s q blocking \<noteq> Some (Inl KeyError, s')))"
proof
  assume m: "m \<in> {PromptMode_yesno, PromptMode_text, PromptMode_user_pwd,
                    PromptMode_download, PromptMode_alert}"
  then show "\<exists>k. classes m = Some k" by auto
  show "mode (questions s q) = m \<longrightarrow>
          (\<forall>s'. ask_question script s q blocking \<noteq> Some (Inl KeyError, s'))"
  proof (intro impI allI)
    fix s' assume mm: "mode (questions s q) = m"
    from m mm obtain k where k: "classes (mode (questions s q)) = Some k" by auto
    show "ask_question script s q blocking \<noteq> Some (Inl KeyError, s')"
      using k construct_not_KeyError[of k q "questions s q" "file_view s"]
            show_prompt_not_KeyError
      by (auto simp: Let_def split: sum.splits prod.splits option.splits)
  qed
qed

theorem classes_five_modes_witness:
  "(\<exists>k. classes PromptMode_text = Some k) \<and>
   (\<forall>s'. ask_question [] (PromptContainer_init (\<lambda>_. sample_question PromptMode_text) (\<lambda>_. []))
            0 False \<noteq> Some (Inl KeyError, s'))"
  using classes_five_modes
          [of PromptMode_text "PromptContainer_init (\<lambda>_. sample_question PromptMode_text) (\<lambda>_. [])"
              0 "[]" False]
  by (simp add: PromptContainer_init_def sample_question_def)

section \<open>What signals and question methods leave unchanged\<close>

lemma run_slot_frame:
  "prompt (run_slot a s) = prompt s" "queue (run_slot a s) = queue s"
  "layout (run_slot a s) = layout s" "shutting_down (run_slot a s) = shutting_down s"
  "loops (run_slot a s) = loops s" "questions (run_slot a s) = questions s"
  "prompts (run_slot a s) = prompts s" "next_prompt (run_slot a s) = next_prompt s"
  "next_loop (run_slot a s) = next_loop s" "visible (run_slot a s) = visible s"
  "file_view (run_slot a s) = file_view s"
  by (cases a; simp add: pop_later_def loop_quit_def loop_deleteLater_def log_effect_def)+

lemma emit_frame:
  "prompt (emit sl s) = prompt s" "queue (emit sl s) = queue s"
  "layout (emit sl s) = layout s" "shutting_down (emit sl s) = shutting_down s"
  "loops (emit sl s) = loops s" "questions (emit sl s) = questions s"
  "prompts (emit sl s) = prompts s" "next_prompt (emit sl s) = next_prompt s"
  "next_loop (emit sl s) = next_loop s" "visible (emit sl s) = visible s"
  "file_view (emit sl s) = file_view s"
  unfolding emit_def by (induction sl arbitrary: s; simp add: run_slot_frame)+

lemma Question_cancel_frame:
  "prompt (Question_cancel q s) = prompt s" "queue (Question_cancel q s) = queue s"
  "layout (Question_cancel q s) = layout s" "shutting_down (Question_cancel q s) = shutting_down s"
  "loops (Question_cancel q s) = loops s" "prompts (Question_cancel q s) = prompts s"
  "next_prompt (Question_cancel q s) = next_prompt s" "next_loop (Question_cancel q s) = next_loop s"
  "visible (Question_cancel q s) = visible s" "file_view (Question_cancel q s) = file_view s"
  by (simp_all add: Question_cancel_def emit_frame upd_question_def)

lemma Question_abort_frame:
  "prompt (Question_abort q s) = prompt s" "queue (Question_abort q s) = queue s"
  "layout (Question_abort q s) = layout s" "shutting_down (Question_abort q s) = shutting_down s"
  "loops (Question_abort q s) = loops s" "prompts (Question_abort q s) = prompts s"
  "next_prompt (Question_abort q s) = next_prompt s" "next_loop (Question_abort q s) = next_loop s"
  "visible (Question_abort q s) = visible s" "file_view (Question_abort q s) = file_view s"
  by (simp_all add: Question_abort_def emit_frame upd_question_def)

lemma Question_done_frame:
  "prompt (Question_done q s) = prompt s" "queue (Question_done q s) = queue s"
  "layout (Question_done q s) = layout s" "shutting_down (Question_done q s) = shutting_down s"
  "loops (Question_done q s) = loops s" "prompts (Question_done q s) = prompts s"
  "next_prompt (Question_done q s) = next_prompt s" "next_loop (Question_done q s) = next_loop s"
  "visible (Question_done q s) = visible s" "file_view (Question_done q s) = file_view s"
  by (simp_all add: Question_done_def emit_frame upd_question_def)

section \<open>Leaving the key mode of the current prompt\<close>

lemma show_prompt_None:
  "prompt s = Some pr \<Longrightarrow> layout s = [pr] \<Longrightarrow>
   show_prompt s None = (Inr False, s\<lparr>layout := [], prompt := None, visible := False\<rparr>)"
  by (simp add: show_prompt_def install_prompt_def)

text \<open>
  C9. When \<open>on_mode_left\<close> fires for the key mode of the current prompt (shown in the
  layout), the container shows nothing (\<open>_show_prompt(None)\<close> returns \<open>False\<close>, the current
  slot is cleared), and it calls \<open>cancel()\<close> on the question exactly when the question has
  no answer and is not aborted; otherwise the question is left as it is.
\<close>

theorem on_mode_left_cancels_unanswered:
  "prompt s = Some pr \<Longrightarrow> layout s = [pr] \<Longrightarrow> m = KEY_MODE (klass_of (prompts s pr)) \<Longrightarrow>
   q = question (prompts s pr) \<Longrightarrow>
   show_prompt s None = (Inr False, s\<lparr>layout := [], prompt := None, visible := False\<rparr>) \<and>
   on_mode_left s m =
     (Inr (),
      if answer (questions s q) = None \<and> \<not> is_aborted (questions s q)
      then Question_cancel q (s\<lparr>layout := [], prompt := None, visible := False\<rparr>)
      else s\<lparr>layout := [], prompt := None, visible := False\<rparr>) \<and>
   prompt (snd (on_mode_left s m)) = None"
  by (simp add: on_mode_left_def show_prompt_None Question_cancel_frame Let_def)

theorem on_mode_left_cancels_unanswered_witness:
  "on_mode_left (shown_state LineEditPrompt PromptMode_text) KeyMode_prompt =
     (Inr (),
      Question_cancel 0
        ((shown_state LineEditPrompt PromptMode_text)
           \<lparr>layout := [], prompt := None, visible := False\<rparr>)) \<and>
   on_mode_left
       (upd_question 0 (\<lambda>x. x\<lparr>answer := Some (VStr ''a'')\<rparr>)
          (shown_state LineEditPrompt PromptMode_text)) KeyMode_prompt =
     (Inr (),
      (upd_question 0 (\<lambda>x. x\<lparr>answer := Some (VStr ''a'')\<rparr>)
         (shown_state LineEditPrompt PromptMode_text))
        \<lparr>layout := [], prompt := None, visible := False\<rparr>)"
  using on_mode_left_cancels_unanswered
          [where s = "shown_state LineEditPrompt PromptMode_text" and pr = 0
             and m = KeyMode_prompt and q = 0]
        on_mode_left_cancels_unanswered
          [where s = "upd_question 0 (\<lambda>x. x\<lparr>answer := Some (VStr ''a'')\<rparr>)
                        (shown_state LineEditPrompt PromptMode_text)" and pr = 0
             and m = KeyMode_prompt and q = 0]
  by (simp add: shown_state_def PromptContainer_init_def BasePrompt_def sample_question_def
        upd_question_def)

section \<open>Errors at the command entry points\<close>

lemma accept_raises_unchanged:
  "accept k p q v = (Inl e, p', q') \<Longrightarrow> p' = p \<and> q' = q"
  by (cases k)
     (auto simp: YesNoPrompt_accept_def LineEditPrompt_accept_def AuthenticationPrompt_accept_def
        FilenamePrompt_accept_def DownloadFilenamePrompt_accept_def AlertPrompt_accept_def Let_def
        split: option.splits if_splits list.splits)

lemma call_accept_raises:
  "fst (accept (klass_of (prompts s pr)) (prompts s pr) (questions s (question (prompts s pr))) v) = Inl e
   \<Longrightarrow> call_accept s pr v = (Inl e, s)"
proof -
  assume a: "fst (accept (klass_of (prompts s pr)) (prompts s pr)
                 (questions s (question (prompts s pr))) v) = Inl e"
  obtain r p' q' where r: "accept (klass_of (prompts s pr)) (prompts s pr)
                 (questions s (question (prompts s pr))) v = (r, p', q')"
    by (metis prod_cases3)
  with a have "r = Inl e" by simp
  with r accept_raises_unchanged have "p' = prompts s pr" "q' = questions s (question (prompts s pr))"
    by blast+
  with r \<open>r = Inl e\<close> show ?thesis by (simp add: call_accept_def)
qed

text \<open>
  C8. At the command entry points, for the current prompt: an \<open>Error\<close> raised by its
  accept method (the spec's InvalidValueError and NoDefaultError are both this class)
  surfaces from \<open>prompt_accept\<close> as a \<open>CommandError\<close> carrying the same message, and the
  container, the prompt and the question are exactly as before, so the question is still
  open; on a prompt that is not a download prompt \<open>download_open\<close> raises
  \<open>UnsupportedOperationError\<close> and \<open>prompt_open_download\<close> returns normally without
  any effect; on a yes/no, text or alert prompt the same holds of \<open>item_focus\<close> and
  \<open>prompt_item_focus\<close>.
\<close>

theorem command_entry_error_policy:
  "prompt s = Some pr \<Longrightarrow> p = prompts s pr \<Longrightarrow> q = questions s (question p) \<Longrightarrow>
   (fst (accept (klass_of p) p q v) = Inl (Error msg) \<longrightarrow>
      prompt_accept s v = (Inl (CommandError msg), s)) \<and>
   (klass_of p \<noteq> DownloadFilenamePrompt \<longrightarrow>
      download_open s pr cmdline = (Inl UnsupportedOperationError, s) \<and>
      prompt_open_download s cmdline = (Inr (), s)) \<and>
   (klass_of p \<in> {YesNoPrompt, LineEditPrompt, AlertPrompt} \<longrightarrow>
      item_focus s pr which = (Inl UnsupportedOperationError, s) \<and>
      prompt_item_focus s which = (Inr (), s))"
  by (auto simp: prompt_accept_def call_accept_raises download_open_def prompt_open_download_def
        item_focus_def prompt_item_focus_def)

theorem command_entry_error_policy_witness:
  "prompt_accept (shown_state YesNoPrompt PromptMode_yesno) (Some ''maybe'') =
     (Inl (CommandError ''Invalid value maybe - expected yes/no!''),
      shown_state YesNoPrompt PromptMode_yesno) \<and>
   prompt_accept (shown_state YesNoPrompt PromptMode_yesno) None =
     (Inl (CommandError ''No default value was set for this question!''),
      shown_state YesNoPrompt PromptMode_yesno) \<and>
   prompt_open_download (shown_state YesNoPrompt PromptMode_yesno) None =
     (Inr (), shown_state YesNoPrompt PromptMode_yesno) \<and>
   prompt_item_focus (shown_state YesNoPrompt PromptMode_yesno) ''next'' =
     (Inr (), shown_state YesNoPrompt PromptMode_yesno)"
  using command_entry_error_policy
          [where s = "shown_state YesNoPrompt PromptMode_yesno" and pr = 0
             and p = "prompts (shown_state YesNoPrompt PromptMode_yesno) 0"
             and q = "questions (shown_state YesNoPrompt PromptMode_yesno) 0"
             and v = "Some ''maybe''" and msg = "''Invalid value maybe - expected yes/no!''"
             and cmdline = None and which = "''next''"]
        command_entry_error_policy
          [where s = "shown_state YesNoPrompt PromptMode_yesno" and pr = 0
             and p = "prompts (shown_state YesNoPrompt PromptMode_yesno) 0"
             and q = "questions (shown_state YesNoPrompt PromptMode_yesno) 0"
             and v = None and msg = "''No default value was set for this question!''"
             and cmdline = None and which = "''next''"]
  by (simp add: shown_state_def PromptContainer_init_def BasePrompt_def sample_question_def
        YesNoPrompt_accept_def InvalidValueError_yesno_def NoDefaultError_def)

section \<open>Asking while shutting down\<close>

lemma Question_abort_marks:
  "\<not> is_completed (questions s q) \<Longrightarrow>
   is_aborted (questions (Question_abort q s) q) \<and> is_completed (questions (Question_abort q s) q)"
  by (simp add: Question_abort_def emit_frame upd_question_def)

text \<open>
  C3. If \<open>shutting_down\<close> is set when \<open>ask_question\<close> is called, then for every question,
  both values of \<open>blocking\<close>, every script and every state of the current slot, the queue
  and the question's mode, the call applies \<open>abort()\<close> to the question and returns
  nothing. Nothing else happens: the current prompt, the queue, the layout, the store of
  prompts (no prompt is constructed) and the event loops are as before, so the check
  comes before the queueing check, the construction and every other step. A question that
  had not completed is aborted afterwards.
\<close>

theorem ask_question_shutting_down:
  "shutting_down s \<Longrightarrow>
   ask_question script s q blocking = Some (Inr None, Question_abort q s) \<and>
   prompt (Question_abort q s) = prompt s \<and> queue (Question_abort q s) = queue s \<and>
   layout (Question_abort q s) = layout s \<and> prompts (Question_abort q s) = prompts s \<and>
   next_prompt (Question_abort q s) = next_prompt s \<and> loops (Question_abort q s) = loops s \<and>
   (is_completed (questions s q) \<or>
    is_aborted (questions (Question_abort q s) q) \<and> is_completed (questions (Question_abort q s) q))"
  using Question_abort_marks[of s q] by (auto simp: Question_abort_frame)

theorem ask_question_shutting_down_witness:
  "ask_question [] ((shown_state LineEditPrompt PromptMode_filename)\<lparr>shutting_down := True\<rparr>) 0 True =
     Some (Inr None,
           Question_abort 0 ((shown_state LineEditPrompt PromptMode_filename)\<lparr>shutting_down := True\<rparr>)) \<and>
   ask_question [] ((shown_state LineEditPrompt PromptMode_filename)\<lparr>shutting_down := True\<rparr>) 0 False =
     Some (Inr None,
           Question_abort 0 ((shown_state LineEditPrompt PromptMode_filename)\<lparr>shutting_down := True\<rparr>)) \<and>
   queue (Question_abort 0 ((shown_state LineEditPrompt PromptMode_filename)\<lparr>shutting_down := True\<rparr>)) = [] \<and>
   is_aborted
     (questions
        (Question_abort 0 ((shown_state LineEditPrompt PromptMode_filename)\<lparr>shutting_down := True\<rparr>)) 0)"
  using ask_question_shutting_down
          [of "(shown_state LineEditPrompt PromptMode_filename)\<lparr>shutting_down := True\<rparr>" "[]" 0 True]
        ask_question_shutting_down
          [of "(shown_state LineEditPrompt PromptMode_filename)\<lparr>shutting_down := True\<rparr>" "[]" 0 False]
  by (simp add: shown_state_def PromptContainer_init_def sample_question_def)

section \<open>Shutdown\<close>

lemma shutdown_fold_frame:
  "quit_loops (fold (\<lambda>loop x. loop_deleteLater loop (loop_quit loop x)) ls s) = quit_loops s @ ls"
  "deleted_later (fold (\<lambda>loop x. loop_deleteLater loop (loop_quit loop x)) ls s) = deleted_later s @ ls"
  "shutting_down (fold (\<lambda>loop x. loop_deleteLater loop (loop_quit loop x)) ls s) = shutting_down s"
  "loops (fold (\<lambda>loop x. loop_deleteLater loop (loop_quit loop x)) ls s) = loops s"
  by (induction ls arbitrary: s; simp add: loop_quit_def loop_deleteLater_def)+

lemma shutdown_fields:
  "shutting_down (snd (shutdown s))" "fst (shutdown s) = (loops s \<noteq> [])"
  "quit_loops (snd (shutdown s)) = quit_loops s @ loops s"
  "loops (snd (shutdown s)) = loops s"
  by (simp_all add: shutdown_def Let_def shutdown_fold_frame)

lemma exec_loop_quit: "l \<in> set (quit_loops s) \<Longrightarrow> exec_loop l script s = Some s"
  by (cases script) simp_all

text \<open>
  What \<open>shutdown\<close> does: it sets \<open>shutting_down\<close>, returns whether \<open>_loops\<close> is
  non-empty, and calls \<open>quit()\<close> on every loop in \<open>_loops\<close>, so that the \<open>exec_\<close> of
  each of them returns at once, whatever events are still to come.
\<close>

lemma shutdown_quits_registered_loops:
  "shutting_down (snd (shutdown s)) \<and>
   (fst (shutdown s) \<longleftrightarrow> loops s \<noteq> []) \<and>
   (\<forall>l \<in> set (loops s).
      l \<in> set (quit_loops (snd (shutdown s))) \<and>
      (\<forall>script. exec_loop l script (snd (shutdown s)) = Some (snd (shutdown s))))"
  by (auto simp: shutdown_fields exec_loop_quit)

lemma exec_loop_shutdown_first:
  "l \<in> set (loops s) \<Longrightarrow> exec_loop l (shutdown_event # rest) s \<noteq> None"
  by (simp add: exec_loop_quit shutdown_fields)

text \<open>
  A blocking ask registers its loop in \<open>_loops\<close> before it suspends, so it returns as soon
  as \<open>shutdown\<close> is the next event delivered to it: no call of \<open>ask_question\<close> hangs on a
  script that starts with a shutdown.
\<close>

lemma ask_question_returns_on_shutdown:
  "ask_question (shutdown_event # rest) s q blocking \<noteq> None"
proof -
  have ex: "(exec_loop (next_loop s2) (shutdown_event # rest)
              (upd_question q
                 (\<lambda>x. x\<lparr>completed_slots := completed_slots x @
                        [loop_quit_slot (next_loop s2), loop_deleteLater_slot (next_loop s2)]\<rparr>)
                 (s2\<lparr>next_loop := Suc (next_loop s2),
                      loops := loops s2 @ [next_loop s2]\<rparr>)) = None) = False" for s2
  proof -
    have "next_loop s2 \<in> set (loops (upd_question q
                 (\<lambda>x. x\<lparr>completed_slots := completed_slots x @
                        [loop_quit_slot (next_loop s2), loop_deleteLater_slot (next_loop s2)]\<rparr>)
                 (s2\<lparr>next_loop := Suc (next_loop s2),
                      loops := loops s2 @ [next_loop s2]\<rparr>)))"
      by (simp add: upd_question_def)
    from exec_loop_shutdown_first[OF this, of rest] show ?thesis by blast
  qed
  show ?thesis
    by (auto simp: Let_def ex simp del: exec_loop.simps split: option.splits sum.splits prod.splits)
qed

text \<open>
  C4. \<open>shutdown\<close> is to return \<open>True\<close> if and only if at least one suspended blocking
  ask existed at the time of the call; its docstring says the same ("Quits and removes all
  running event loops", "True if loops needed to be aborted"). The code tests \<open>_loops\<close>,
  and the loop of a blocking ask stays in \<open>_loops\<close> after the ask has returned, until its
  deferred deletion fires \<open>destroyed\<close>. Here a fresh container is asked one blocking yes/no
  question, which is answered with \<open>yes\<close>: the call returns \<open>True\<close>, its loop has been
  quit and scheduled for deletion and is still in \<open>_loops\<close>. No call is suspended and no
  loop is running, yet \<open>shutdown\<close> returns \<open>True\<close>.
\<close>

theorem shutdown_true_after_returned_ask:
  "\<exists>s1. ask_question [prompt_accept_event (Some ''yes'')]
           (PromptContainer_init (\<lambda>_. sample_question PromptMode_yesno) (\<lambda>_. [])) 0 True =
         Some (Inr (Some (VBool True)), s1) \<and>
        loops s1 = [0] \<and> quit_loops s1 = [0] \<and> deleted_later s1 = [0] \<and>
        fst (shutdown s1)"
  by (simp add: PromptContainer_init_def sample_question_def show_prompt_def install_prompt_def
        BasePrompt_def upd_question_def upd_prompt_def log_effect_def Let_def prompt_accept_def
        call_accept_def YesNoPrompt_accept_def Question_done_def emit_def loop_quit_def
        loop_deleteLater_def shutdown_def)

section \<open>Blocking asks\<close>

text \<open>What a successful \<open>_show_prompt\<close> leaves behind.\<close>

lemma show_prompt_Inr:
  "show_prompt s p = (Inr r, s') \<Longrightarrow>
   prompt s' = p \<and> r = (p \<noteq> None) \<and> queue s' = queue s \<and> pop_timers s' = pop_timers s \<and>
   loops s' = loops s \<and> shutting_down s' = shutting_down s \<and>
   (\<forall>q. answer (questions s' q) = answer (questions s q)) \<and>
   layout s' = (case p of None \<Rightarrow> [] | Some pr \<Rightarrow> [pr])"
  by (cases p; cases "layout s")
     (auto simp: show_prompt_def install_prompt_def Let_def upd_question_def upd_prompt_def
        log_effect_def split: if_splits)

text \<open>
  C1. A blocking ask (issued while the container is not shutting down, for a question whose
  prompt can be constructed and shown): the value of \<open>_prompt\<close> at entry, \<open>prompt s\<close>, is
  what \<open>_show_prompt\<close> is called with once the local event loop has returned (state
  \<open>sb\<close>), so the saved value is restored, and the restoration reports a prompt exactly
  when the saved value was one. \<open>_pop_later\<close> is called if and only if the restoration
  reports nothing displayed and the queue is non-empty: the count of pending \<open>_pop\<close>
  timers grows by one in that case and stays as the loop left it otherwise. The call
  returns the \<open>answer\<close> attribute of the question as the loop left it, which is \<open>None\<close>
  when no answer was written (a question cancelled by leaving the mode, as in the first
  of the two runs that follow the theorem).
\<close>

theorem ask_question_blocking:
  assumes "\<not> shutting_down s"
    and "classes (mode (questions s q)) = Some k"
    and "construct k q (questions s q) (file_view s) = Inr p"
    and "show_prompt (s\<lparr>prompts := (prompts s)(next_prompt s := p),
                        next_prompt := Suc (next_prompt s)\<rparr>) (Some (next_prompt s)) = (Inr shown, sa)"
    and "exec_loop (next_loop sa) script
           (upd_question q
              (\<lambda>x. x\<lparr>completed_slots := completed_slots x @
                     [loop_quit_slot (next_loop sa), loop_deleteLater_slot (next_loop sa)]\<rparr>)
              (sa\<lparr>next_loop := Suc (next_loop sa), loops := loops sa @ [next_loop sa]\<rparr>)) = Some sb"
    and "show_prompt sb (prompt s) = (Inr restored, sc)"
  shows "ask_question script s q True =
           Some (Inr (answer (questions sb q)),
                 if \<not> restored \<and> queue sc \<noteq> [] then pop_later sc else sc) \<and>
         restored = (prompt s \<noteq> None) \<and>
         prompt (if \<not> restored \<and> queue sc \<noteq> [] then pop_later sc else sc) = prompt s \<and>
         pop_timers (if \<not> restored \<and> queue sc \<noteq> [] then pop_later sc else sc) =
           pop_timers sb + (if prompt s = None \<and> queue sb \<noteq> [] then 1 else 0)"
proof -
  from show_prompt_Inr[OF assms(6)]
  have r: "prompt sc = prompt s" "restored = (prompt s \<noteq> None)" "queue sc = queue sb"
    "pop_timers sc = pop_timers sb" "answer (questions sc q) = answer (questions sb q)"
    by simp_all
  have "ask_question script s q True =
           Some (Inr (answer (questions sb q)),
                 if \<not> restored \<and> queue sc \<noteq> [] then pop_later sc else sc)"
    using assms r(5)
    by (simp add: Let_def pop_later_def del: exec_loop.simps)
  then show ?thesis using r by (simp add: pop_later_def)
qed

text \<open>The definitions needed to evaluate a script on a concrete container.\<close>

lemmas eval_defs =
  PromptContainer_init_def shown_state_def sample_question_def show_prompt_def install_prompt_def
  BasePrompt_def upd_question_def upd_prompt_def log_effect_def Let_def on_mode_left_def
  Question_cancel_def Question_done_def emit_def loop_quit_def loop_deleteLater_def pop_later_def
  initial_text_def prompt_accept_def call_accept_def LineEditPrompt_accept_def

theorem ask_question_blocking_witness:
  "(\<exists>s'. ask_question [on_mode_left_event KeyMode_prompt]
            ((PromptContainer_init (\<lambda>_. sample_question PromptMode_text) (\<lambda>_. []))\<lparr>queue := [1]\<rparr>)
            0 True = Some (Inr None, s') \<and>
         prompt s' = None \<and> pop_timers s' = 1 \<and> is_aborted (questions s' 0)) \<and>
   (\<exists>s'. ask_question [prompt_accept_event (Some ''hi'')]
            ((shown_state LineEditPrompt PromptMode_text)\<lparr>queue := [2]\<rparr>) 1 True =
           Some (Inr (Some (VStr ''hi'')), s') \<and>
         prompt s' = Some 0 \<and> pop_timers s' = 0 \<and> layout s' = [0])"
proof -
  let ?A = "(PromptContainer_init (\<lambda>_. sample_question PromptMode_text) (\<lambda>_. []))\<lparr>queue := [1]\<rparr>"
  let ?p = "BasePrompt LineEditPrompt 0 (\<lambda>_. [])"
  let ?A2 = "snd (show_prompt (?A\<lparr>prompts := (prompts ?A)(next_prompt ?A := ?p),
                                  next_prompt := Suc (next_prompt ?A)\<rparr>) (Some (next_prompt ?A)))"
  let ?A4 = "upd_question 0
              (\<lambda>x. x\<lparr>completed_slots := completed_slots x @
                     [loop_quit_slot (next_loop ?A2), loop_deleteLater_slot (next_loop ?A2)]\<rparr>)
              (?A2\<lparr>next_loop := Suc (next_loop ?A2), loops := loops ?A2 @ [next_loop ?A2]\<rparr>)"
  let ?A5 = "the (exec_loop (next_loop ?A2) [on_mode_left_event KeyMode_prompt] ?A4)"
  let ?A6 = "snd (show_prompt ?A5 (prompt ?A))"
  have a: "ask_question [on_mode_left_event KeyMode_prompt] ?A 0 True =
           Some (Inr (answer (questions ?A5 0)),
                 if \<not> False \<and> queue ?A6 \<noteq> [] then pop_later ?A6 else ?A6)"
    using ask_question_blocking
            [where s = ?A and q = 0 and k = LineEditPrompt and p = ?p and shown = True
               and sa = ?A2 and script = "[on_mode_left_event KeyMode_prompt]" and sb = ?A5
               and restored = False and sc = ?A6]
    by (simp add: eval_defs)
  let ?B = "(shown_state LineEditPrompt PromptMode_text)\<lparr>queue := [2]\<rparr>"
  let ?r = "BasePrompt LineEditPrompt 1 (\<lambda>_. [])"
  let ?B2 = "snd (show_prompt (?B\<lparr>prompts := (prompts ?B)(next_prompt ?B := ?r),
                                  next_prompt := Suc (next_prompt ?B)\<rparr>) (Some (next_prompt ?B)))"
  let ?B4 = "upd_question 1
              (\<lambda>x. x\<lparr>completed_slots := completed_slots x @
                     [loop_quit_slot (next_loop ?B2), loop_deleteLater_slot (next_loop ?B2)]\<rparr>)
              (?B2\<lparr>next_loop := Suc (next_loop ?B2), loops := loops ?B2 @ [next_loop ?B2]\<rparr>)"
  let ?B5 = "the (exec_loop (next_loop ?B2) [prompt_accept_event (Some ''hi'')] ?B4)"
  let ?B6 = "snd (show_prompt ?B5 (prompt ?B))"
  have b: "ask_question [prompt_accept_event (Some ''hi'')] ?B 1 True =
           Some (Inr (answer (questions ?B5 1)),
                 if \<not> True \<and> queue ?B6 \<noteq> [] then pop_later ?B6 else ?B6)"
    using ask_question_blocking
            [where s = ?B and q = 1 and k = LineEditPrompt and p = ?r and shown = True
               and sa = ?B2 and script = "[prompt_accept_event (Some ''hi'')]" and sb = ?B5
               and restored = True and sc = ?B6]
    by (simp add: eval_defs)
  show ?thesis
    unfolding a b by (simp add: eval_defs)
qed

section \<open>Non-blocking asks and the queue\<close>









lemma static_part_queue [simp]: "static_part (s\<lparr>queue := x\<rparr>) = static_part s"
  by (simp add: static_part_def)






section \<open>The layout invariant\<close>

text \<open>
  In a consistent state \<open>_show_prompt\<close> passes its assertions, installs what it is given
  and leaves a consistent state. A new container is consistent, and every entry point
  (asking, popping, the local event loop and each event handler) preserves consistency: the
  states in which the theorems above assume \<open>_show_prompt\<close> to succeed, or the current
  prompt to be the one in the layout, are the states the container can reach.
\<close>

lemma show_prompt_consistent:
  "consistent s \<Longrightarrow> show_prompt s p = (r, s') \<Longrightarrow>
   r = Inr (p \<noteq> None) \<and> consistent s' \<and> prompt s' = p"
  by (cases p; cases "prompt s")
     (auto simp: consistent_def show_prompt_def install_prompt_def Let_def
        upd_question_def upd_prompt_def log_effect_def)

lemma consistent_upd [simp]:
  "consistent (upd_question q f s) = consistent s"
  "consistent (upd_prompt pr g s) = consistent s"
  "consistent (log_effect e s) = consistent s"
  "consistent (pop_later s) = consistent s"
  "consistent (Question_done q s) = consistent s"
  "consistent (Question_cancel q s) = consistent s"
  "consistent (Question_abort q s) = consistent s"
  "consistent (s\<lparr>queue := x1\<rparr>) = consistent s"
  "consistent (s\<lparr>prompts := x2\<rparr>) = consistent s"
  "consistent (s\<lparr>questions := x3\<rparr>) = consistent s"
  "consistent (s\<lparr>next_prompt := x4\<rparr>) = consistent s"
  "consistent (s\<lparr>next_loop := x5\<rparr>) = consistent s"
  "consistent (s\<lparr>loops := x6\<rparr>) = consistent s"
  "consistent (s\<lparr>pop_timers := x7\<rparr>) = consistent s"
  "consistent (s\<lparr>shutting_down := x8\<rparr>) = consistent s"
  by (simp_all add: consistent_def upd_question_def upd_prompt_def log_effect_def pop_later_def
        Question_done_frame Question_cancel_frame Question_abort_frame)

lemma handlers_consistent:
  "consistent s \<Longrightarrow> consistent (snd (on_mode_left s m))"
  "consistent s \<Longrightarrow> consistent (snd (prompt_accept s v))"
  "consistent s \<Longrightarrow> consistent (snd (prompt_open_download s c))"
  "consistent s \<Longrightarrow> consistent (snd (prompt_item_focus s w))"
  "consistent s \<Longrightarrow> consistent (snd (loops_remove s l))"
proof -
  assume c: "consistent s"
  obtain r s1 where sp: "show_prompt s None = (r, s1)" by force
  from show_prompt_consistent[OF c sp] sp c
  show "consistent (snd (on_mode_left s m))"
    by (auto simp: on_mode_left_def Let_def split: option.splits sum.splits)
next
  show "consistent s \<Longrightarrow> consistent (snd (prompt_accept s v))"
    by (auto simp: prompt_accept_def call_accept_def Let_def split: option.splits prod.splits sum.splits exn.splits)
next
  show "consistent s \<Longrightarrow> consistent (snd (prompt_open_download s c))"
    by (auto simp: prompt_open_download_def download_open_def Let_def
        split: option.splits prod.splits sum.splits exn.splits)
next
  show "consistent s \<Longrightarrow> consistent (snd (prompt_item_focus s w))"
    by (auto simp: prompt_item_focus_def item_focus_def Let_def
        split: option.splits prod.splits sum.splits exn.splits)
next
  show "consistent s \<Longrightarrow> consistent (snd (loops_remove s l))"
    by (simp add: loops_remove_def)
qed

lemma shutdown_consistent: "consistent s \<Longrightarrow> consistent (snd (shutdown s))"
proof -
  have "layout (fold (\<lambda>loop x. loop_deleteLater loop (loop_quit loop x)) ls s') = layout s' \<and>
        prompt (fold (\<lambda>loop x. loop_deleteLater loop (loop_quit loop x)) ls s') = prompt s'" for ls s'
    by (induction ls arbitrary: s') (simp_all add: loop_quit_def loop_deleteLater_def)
  then show "consistent s \<Longrightarrow> consistent (snd (shutdown s))"
    by (simp add: shutdown_def Let_def consistent_def)
qed


lemma consistent_preserved:
  "consistent s \<Longrightarrow> ask_question sc s q b = Some (r, s') \<Longrightarrow> consistent s'"
  "consistent s \<Longrightarrow> pop s = Some (u, s') \<Longrightarrow> consistent s'"
  "consistent s \<Longrightarrow> exec_loop l es s = Some s' \<Longrightarrow> consistent s'"
  "consistent s \<Longrightarrow> handle e s = Some s' \<Longrightarrow> consistent s'"
proof (induction sc s q b and s and l es s and e s arbitrary: r s' and u s' and s' and s'
       rule: ask_question_pop_exec_loop_handle.induct)
  case (1 script s q blocking)
  note prem = "1.prems"(2)
  show ?case
  proof (cases "shutting_down s \<or> (prompt s \<noteq> None \<and> \<not> blocking)")
    case True
    with prem "1.prems"(1) show ?thesis by (auto split: if_splits)
  next
    case False
    then have f: "\<not> shutting_down s" "\<not> (prompt s \<noteq> None \<and> \<not> blocking)" by simp_all
    show ?thesis
    proof (cases "classes (mode (questions s q))")
      case None
      with f prem "1.prems"(1) show ?thesis by (auto split: if_splits)
    next
      case (Some k)
      show ?thesis
      proof (cases "construct k q (questions s q) (file_view s)")
        case (Inl e)
        with f Some prem "1.prems"(1) show ?thesis by (auto split: if_splits)
      next
        case (Inr p)
        let ?sa = "s\<lparr>prompts := (prompts s)(next_prompt s := p),
                       next_prompt := Suc (next_prompt s)\<rparr>"
        obtain x sb where sp: "show_prompt ?sa (Some (next_prompt s)) = (x, sb)" by force
        have ca: "consistent ?sa" using "1.prems"(1) by simp
        from show_prompt_consistent[OF ca sp] have x: "x = Inr True" and cb: "consistent sb"
          by simp_all
        show ?thesis
        proof (cases blocking)
          case False
          with f Some Inr sp x cb prem show ?thesis
            by (auto simp: Let_def)
        next
          case True
          let ?sd = "upd_question q
                 (\<lambda>x. x\<lparr>completed_slots := completed_slots x @
                        [loop_quit_slot (next_loop sb), loop_deleteLater_slot (next_loop sb)]\<rparr>)
                 (sb\<lparr>next_loop := Suc (next_loop sb), loops := loops sb @ [next_loop sb]\<rparr>)"
          have cd: "consistent ?sd" using cb by simp
          from f Some Inr sp x True prem
          obtain se where ex: "exec_loop (next_loop sb) script ?sd = Some se"
            by (auto simp: Let_def split: option.splits)
          have ce: "consistent se"
            by (rule "1.IH"[OF f(1) f(2) refl Some Inr refl refl sp[symmetric] x True refl refl refl cd ex])
          obtain y sf where sp2: "show_prompt se (prompt s) = (y, sf)" by force
          from show_prompt_consistent[OF ce sp2]
          have cf: "consistent sf" and y: "y = Inr (prompt s \<noteq> None)" by simp_all
          from f Some Inr sp x True ex sp2 y cf prem show ?thesis
            by (auto simp: Let_def split: if_splits)
        qed
      qed
    qed
  qed
next
  case (2 s)
  show ?case
  proof (cases "queue s")
    case Nil
    with "2.prems" show ?thesis by simp
  next
    case (Cons q rest)
    show ?thesis
    proof (cases "isdeleted (questions s q)")
      case True
      with Cons "2.prems" show ?thesis by auto
    next
      case False
      from Cons False "2.prems"(2)
      obtain r where a: "ask_question [] (s\<lparr>queue := rest\<rparr>) q False = Some (r, s')"
        by (auto simp del: ask_question.simps split: option.splits sum.splits prod.splits)
      have c: "consistent (s\<lparr>queue := rest\<rparr>)" using "2.prems"(1) by simp
      from False have nd: "\<not> isdeleted (questions (s\<lparr>queue := rest\<rparr>) q)" by simp
      show ?thesis
        by (rule "2.IH"[OF Cons refl nd c a])
    qed
  qed
next
  case (3 loop s)
  then show ?case by (auto split: if_splits)
next
  case (4 loop e es s)
  show ?case
  proof (cases "loop \<in> set (quit_loops s)")
    case True
    with "4.prems" show ?thesis by simp
  next
    case False
    with "4.prems"(2) obtain sa where h: "handle e s = Some sa" and ex: "exec_loop loop es sa = Some s'"
      by (auto split: option.splits)
    from "4.IH"(1)[OF False "4.prems"(1) h] have "consistent sa" .
    from "4.IH"(2)[OF False h this ex] show ?thesis .
  qed
next
  case (5 q blocking script s)
  from "5.prems"(2) obtain r where "ask_question script s q blocking = Some (r, s')"
    by (auto simp del: ask_question.simps split: option.splits prod.splits)
  from "5.IH"[OF "5.prems"(1) this] show ?case .
next
  case (6 v s)
  then show ?case using handlers_consistent(2)[of s v] by auto
next
  case (7 m s)
  then show ?case using handlers_consistent(1)[of s m] by auto
next
  case (8 cmdline s)
  then show ?case using handlers_consistent(3)[of s cmdline] by auto
next
  case (9 which s)
  then show ?case using handlers_consistent(4)[of s which] by auto
next
  case (10 s)
  then show ?case using shutdown_consistent[of s] by auto
next
  case (11 s)
  show ?case
  proof (cases "pop_timers s = 0")
    case True
    with "11.prems" show ?thesis by simp
  next
    case False
    with "11.prems"(2) obtain u where p: "pop (s\<lparr>pop_timers := pop_timers s - 1\<rparr>) = Some (u, s')"
      by (auto simp del: pop.simps split: option.splits prod.splits)
    have c: "consistent (s\<lparr>pop_timers := pop_timers s - 1\<rparr>)" using "11.prems"(1) by simp
    from "11.IH"[OF False c p] show ?thesis .
  qed
next
  case (12 loop s)
  then show ?case using handlers_consistent(5)[of s loop] by auto
qed

lemma PromptContainer_init_consistent: "consistent (PromptContainer_init qs fv)"
  by (simp add: consistent_def PromptContainer_init_def)

lemma show_prompt_succeeds:
  "consistent s \<Longrightarrow> \<exists>s'. show_prompt s p = (Inr (p \<noteq> None), s') \<and> consistent s' \<and> prompt s' = p"
  using show_prompt_consistent[of s p] by (cases "show_prompt s p") simp

end
